theory Spec2Isabelle
  imports Complex_Main "HOL-Library.Multiset"
begin

section \<open>GLfloat values\<close>

text \<open>
  A \<open>GLfloat\<close> is a real number or the not-a-number value. The arithmetic on numbers
  is the exact one: the rounding of a float operation, its overflow to an infinity and its
  underflow to zero are not in the model. What is kept is every place where the C
  arithmetic leaves the numbers: a division by zero and a square root of a negative number
  give \<open>NaN\<close>, \<open>NaN\<close> goes through every operation, and every comparison with
  \<open>NaN\<close> is false. (IEEE gives an infinity for \<open>x / 0\<close> with \<open>x \<noteq> 0\<close>; the
  only such division of the flock code is the cohesion weight, whose infinity is then
  divided by the infinite total weight, which is \<open>NaN\<close> again.)

  So the model and the program agree only while the float arithmetic stays in range. They
  differ, for instance, on the normalization of (1e-30, 0, 0), whose square underflows to 0
  in float (the program divides by 0), and of (1e20, 0, 0), whose square overflows. No
  property below says what the program computes on such numbers: the properties are about
  \<open>NaN\<close> results, about which slots and records are read and written, about small exact
  numbers, and about vectors that a normalization does not leave as they were.
\<close>

datatype glfloat = Fin real | NaN

fun fadd :: "glfloat \<Rightarrow> glfloat \<Rightarrow> glfloat" where
  "fadd (Fin a) (Fin b) = Fin (a + b)"
| "fadd _ _ = NaN"

fun fsub :: "glfloat \<Rightarrow> glfloat \<Rightarrow> glfloat" where
  "fsub (Fin a) (Fin b) = Fin (a - b)"
| "fsub _ _ = NaN"

fun fmul :: "glfloat \<Rightarrow> glfloat \<Rightarrow> glfloat" where
  "fmul (Fin a) (Fin b) = Fin (a * b)"
| "fmul _ _ = NaN"

fun fdiv :: "glfloat \<Rightarrow> glfloat \<Rightarrow> glfloat" where
  "fdiv (Fin a) (Fin b) = (if b = 0 then NaN else Fin (a / b))"
| "fdiv _ _ = NaN"

fun fsqrt :: "glfloat \<Rightarrow> glfloat" where
  "fsqrt (Fin a) = (if a < 0 then NaN else Fin (sqrt a))"
| "fsqrt NaN = NaN"

text \<open>The C operators \<open><\<close> and \<open>>\<close>: false as soon as an operand is \<open>NaN\<close>.\<close>

fun flt :: "glfloat \<Rightarrow> glfloat \<Rightarrow> bool" where
  "flt (Fin a) (Fin b) = (a < b)"
| "flt _ _ = False"

fun fgt :: "glfloat \<Rightarrow> glfloat \<Rightarrow> bool" where
  "fgt (Fin a) (Fin b) = (a > b)"
| "fgt _ _ = False"

text \<open>\<open>fminf\<close> of the C library: with one \<open>NaN\<close> argument it returns the other.\<close>

fun fminf :: "glfloat \<Rightarrow> glfloat \<Rightarrow> glfloat" where
  "fminf (Fin a) (Fin b) = Fin (min a b)"
| "fminf NaN y = y"
| "fminf x NaN = x"

section \<open>geometry.c\<close>

text \<open>\<open>point_3d\<close> and \<open>vector_3d\<close> are arrays of three \<open>GLfloat\<close>: components 0, 1, 2.\<close>

type_synonym point_3d = "glfloat \<times> glfloat \<times> glfloat"
type_synonym vector_3d = "glfloat \<times> glfloat \<times> glfloat"

text \<open>
  \<open>geometry_normalize_vector\<close>: the length is computed and the three components are
  divided by it, with no test on the length. (In the model the length of a vector of
  numbers is 0 only for the zero vector; in float it is also 0 when the squares underflow.)
\<close>

fun geometry_normalize_vector :: "vector_3d \<Rightarrow> vector_3d" where
  "geometry_normalize_vector (v0, v1, v2) =
     (let length = fsqrt (fadd (fadd (fmul v0 v0) (fmul v1 v1)) (fmul v2 v2))
      in (fdiv v0 length, fdiv v1 length, fdiv v2 length))"

section \<open>Constants of environment.h, boids.h and boid\_behavior.h\<close>

definition ENVIRONMENT_RADIUS_XZ :: real where "ENVIRONMENT_RADIUS_XZ = 10"
definition ENVIRONMENT_HEIGHT :: real where "ENVIRONMENT_HEIGHT = 10"
definition ENVIRONMENT_FLOOR_Y :: real where "ENVIRONMENT_FLOOR_Y = - 1"

definition BOID_COUNT :: nat where "BOID_COUNT = 40"
definition BOID_SPEED :: real where "BOID_SPEED = 1 / 100"
definition BOID_NEIGHBORHOOD_SIZE :: nat where "BOID_NEIGHBORHOOD_SIZE = 6"

definition BOID_TRIGGER_SEPARATE :: real where "BOID_TRIGGER_SEPARATE = 1"
definition BOID_TRIGGER_ENVIRONMENT :: real where "BOID_TRIGGER_ENVIRONMENT = 2"

definition BOID_STRENGTH_ENVIRONMENT :: real where "BOID_STRENGTH_ENVIRONMENT = 1 / 10"
definition BOID_STRENGTH_SEPARATE :: real where "BOID_STRENGTH_SEPARATE = 5 / 1000"
definition BOID_STRENGTH_ALIGNMENT :: real where "BOID_STRENGTH_ALIGNMENT = 125 / 100000"
definition BOID_STRENGTH_COHESION :: real where "BOID_STRENGTH_COHESION = 2 / 1000"

lemmas boid_constants =
  ENVIRONMENT_RADIUS_XZ_def ENVIRONMENT_HEIGHT_def ENVIRONMENT_FLOOR_Y_def
  BOID_COUNT_def BOID_SPEED_def BOID_NEIGHBORHOOD_SIZE_def
  BOID_TRIGGER_SEPARATE_def BOID_TRIGGER_ENVIRONMENT_def
  BOID_STRENGTH_ENVIRONMENT_def BOID_STRENGTH_SEPARATE_def
  BOID_STRENGTH_ALIGNMENT_def BOID_STRENGTH_COHESION_def

section \<open>The boid and the neighbour record\<close>

record boid =
  position :: point_3d
  direction :: vector_3d

record boid_neighbor =
  distance :: glfloat
  index :: nat

section \<open>boid\_physics.c\<close>

text \<open>
  \<open>boid_physics_distance_of_boids\<close>: the x and y differences are taken as
  \<open>b2 - b1\<close>, the z difference as \<open>b1 - b2\<close>, as the source has them.
\<close>

definition boid_physics_distance_of_boids :: "boid \<Rightarrow> boid \<Rightarrow> glfloat" where
  "boid_physics_distance_of_boids b1 b2 =
     (case position b1 of (x1, y1, z1) \<Rightarrow>
      case position b2 of (x2, y2, z2) \<Rightarrow>
        let delta_x = fsub x2 x1;
            delta_y = fsub y2 y1;
            delta_z = fsub z1 z2
        in fsqrt (fadd (fadd (fmul delta_x delta_x) (fmul delta_y delta_y))
                       (fmul delta_z delta_z)))"

definition distance_to_wall :: "boid \<Rightarrow> glfloat" where
  "distance_to_wall subject_boid =
     (case position subject_boid of (x, y, z) \<Rightarrow>
        let distance_to_origin_xz = fsqrt (fadd (fmul x x) (fmul z z))
        in fsub (Fin ENVIRONMENT_RADIUS_XZ) distance_to_origin_xz)"

definition distance_to_floor :: "boid \<Rightarrow> glfloat" where
  "distance_to_floor subject_boid =
     (case position subject_boid of (x, y, z) \<Rightarrow> fsub y (Fin ENVIRONMENT_FLOOR_Y))"

definition distance_to_ceiling :: "boid \<Rightarrow> glfloat" where
  "distance_to_ceiling subject_boid =
     (case position subject_boid of (x, y, z) \<Rightarrow> fsub (Fin ENVIRONMENT_HEIGHT) y)"

definition boid_physics_min_distance_to_environment :: "boid \<Rightarrow> glfloat" where
  "boid_physics_min_distance_to_environment subject_boid =
     (let min_distance = distance_to_wall subject_boid;
          min_distance = fminf min_distance (distance_to_floor subject_boid);
          min_distance = fminf min_distance (distance_to_ceiling subject_boid)
      in min_distance)"

text \<open>
  \<open>boid_physics_target_direction_environment\<close> updates the vector it is given
  (the caller passes zeros): a repulsion term for each boundary nearer than
  \<open>BOID_TRIGGER_ENVIRONMENT\<close>, then the boid's direction is subtracted and the
  result normalized.
\<close>

definition boid_physics_target_direction_environment :: "boid \<Rightarrow> vector_3d \<Rightarrow> vector_3d" where
  "boid_physics_target_direction_environment subject_boid target_direction =
     (case position subject_boid of (p0, p1, p2) \<Rightarrow>
      case direction subject_boid of (d0, d1, d2) \<Rightarrow>
      case target_direction of (t0, t1, t2) \<Rightarrow>
        let wall_distance = distance_to_wall subject_boid;
            (t0, t2) =
              (if flt wall_distance (Fin BOID_TRIGGER_ENVIRONMENT)
               then let repulsion_strength =
                          fdiv (Fin BOID_STRENGTH_ENVIRONMENT)
                               (fadd (fmul wall_distance wall_distance) (Fin (1 / 1000000)))
                    in (fsub t0 (fmul p0 repulsion_strength),
                        fsub t2 (fmul p2 repulsion_strength))
               else (t0, t2));
            floor_distance = distance_to_floor subject_boid;
            t1 =
              (if flt floor_distance (Fin BOID_TRIGGER_ENVIRONMENT)
               then let repulsion_strength =
                          fdiv (Fin BOID_STRENGTH_ENVIRONMENT)
                               (fadd (fmul floor_distance floor_distance) (Fin (1 / 1000000)))
                    in fadd t1 repulsion_strength
               else t1);
            ceiling_distance = distance_to_ceiling subject_boid;
            t1 =
              (if flt ceiling_distance (Fin BOID_TRIGGER_ENVIRONMENT)
               then let repulsion_strength =
                          fdiv (Fin BOID_STRENGTH_ENVIRONMENT)
                               (fadd (fmul ceiling_distance ceiling_distance) (Fin (1 / 1000000)))
                    in fsub t1 repulsion_strength
               else t1)
        in geometry_normalize_vector (fsub t0 d0, fsub t1 d1, fsub t2 d2))"

text \<open>
  The two neighbour targets read the neighbours' boids in \<open>array_boids_previous\<close>
  (the argument \<open>previous\<close>), one loop turn for each of the
  \<open>BOID_NEIGHBORHOOD_SIZE\<close> records.
\<close>

definition boid_physics_target_direction_neighbor_alignment ::
  "boid list \<Rightarrow> boid \<Rightarrow> boid_neighbor list \<Rightarrow> vector_3d" where
  "boid_physics_target_direction_neighbor_alignment previous subject_boid neighbors =
     (case fold (\<lambda>i (sum_x, sum_y, sum_z).
                   let idx = index (neighbors ! i);
                       neighbor = previous ! idx
                   in case direction neighbor of (n0, n1, n2) \<Rightarrow>
                        (fadd sum_x n0, fadd sum_y n1, fadd sum_z n2))
                [0..<BOID_NEIGHBORHOOD_SIZE] (Fin 0, Fin 0, Fin 0)
      of (sum_x, sum_y, sum_z) \<Rightarrow>
      case direction subject_boid of (d0, d1, d2) \<Rightarrow>
        let avg_x = fdiv sum_x (Fin (real BOID_NEIGHBORHOOD_SIZE));
            avg_y = fdiv sum_y (Fin (real BOID_NEIGHBORHOOD_SIZE));
            avg_z = fdiv sum_z (Fin (real BOID_NEIGHBORHOOD_SIZE))
        in geometry_normalize_vector (fsub avg_x d0, fsub avg_y d1, fsub avg_z d2))"

definition boid_physics_target_direction_neighbor_cohesion ::
  "boid list \<Rightarrow> boid \<Rightarrow> boid_neighbor list \<Rightarrow> vector_3d" where
  "boid_physics_target_direction_neighbor_cohesion previous subject_boid neighbors =
     (case fold (\<lambda>i (sum_x, sum_y, sum_z, total_weight).
                   let idx = index (neighbors ! i);
                       neighbor = previous ! idx;
                       dist = boid_physics_distance_of_boids subject_boid neighbor;
                       weight = fdiv (Fin BOID_STRENGTH_COHESION) (fmul dist dist)
                   in case position neighbor of (n0, n1, n2) \<Rightarrow>
                        (fadd sum_x (fmul n0 weight), fadd sum_y (fmul n1 weight),
                         fadd sum_z (fmul n2 weight), fadd total_weight weight))
                [0..<BOID_NEIGHBORHOOD_SIZE] (Fin 0, Fin 0, Fin 0, Fin 0)
      of (sum_x, sum_y, sum_z, total_weight) \<Rightarrow>
      case position subject_boid of (p0, p1, p2) \<Rightarrow>
        let avg_x = fdiv sum_x total_weight;
            avg_y = fdiv sum_y total_weight;
            avg_z = fdiv sum_z total_weight
        in geometry_normalize_vector (fsub avg_x p0, fsub avg_y p1, fsub avg_z p2))"

definition boid_physics_update_position :: "boid \<Rightarrow> boid" where
  "boid_physics_update_position subject_boid =
     (case position subject_boid of (p0, p1, p2) \<Rightarrow>
      case direction subject_boid of (d0, d1, d2) \<Rightarrow>
        subject_boid\<lparr>position :=
          (fadd p0 (fmul d0 (Fin BOID_SPEED)),
           fadd p1 (fmul d1 (Fin BOID_SPEED)),
           fadd p2 (fmul d2 (Fin BOID_SPEED)))\<rparr>)"

section \<open>boid\_behavior.c\<close>

text \<open>
  The comparator handed to \<open>qsort\<close>: it looks at the distances only and returns 0
  when neither is smaller.
\<close>

definition compare_neighbor_boids :: "boid_neighbor \<Rightarrow> boid_neighbor \<Rightarrow> int" where
  "compare_neighbor_boids neighbor_a neighbor_b =
     (if flt (distance neighbor_a) (distance neighbor_b) then - 1
      else if fgt (distance neighbor_a) (distance neighbor_b) then 1
      else 0)"

text \<open>
  \<open>qsort\<close> is the C library's and not part of the repository: it is the parameter
  \<open>qs\<close> of every function that sorts.
\<close>

type_synonym qsort = "(boid_neighbor \<Rightarrow> boid_neighbor \<Rightarrow> int) \<Rightarrow> boid_neighbor list \<Rightarrow> boid_neighbor list"

text \<open>
  The sort that the program is run with below, \<open>qsort_stable\<close>: an insertion sort by
  the comparator that leaves elements that compare equal in the order they have in the
  array. The C standard leaves that order to the library; the library's \<open>qsort\<close> keeps
  it where it is a merge sort (as glibc's is on an array of this size), and this is the
  behaviour taken here.
\<close>

fun insert_before :: "('a \<Rightarrow> 'a \<Rightarrow> int) \<Rightarrow> 'a \<Rightarrow> 'a list \<Rightarrow> 'a list" where
  "insert_before cmp x [] = [x]"
| "insert_before cmp x (y # ys) =
     (if cmp x y \<le> 0 then x # y # ys else y # insert_before cmp x ys)"

definition qsort_stable :: "('a \<Rightarrow> 'a \<Rightarrow> int) \<Rightarrow> 'a list \<Rightarrow> 'a list" where
  "qsort_stable cmp xs = foldr (insert_before cmp) xs []"

definition sort_all_neighbors :: "qsort \<Rightarrow> boid_neighbor list \<Rightarrow> boid_neighbor list" where
  "sort_all_neighbors qs all_neighbors = qs compare_neighbor_boids all_neighbors"

text \<open>
  \<open>boid_behavior_find_neighbors\<close>: the output array is first filled with defaults;
  the distance of the subject to each of the \<open>BOID_COUNT\<close> boids of
  \<open>array_boids_previous\<close> is recorded with the boid's index; the records are sorted;
  the records at the sorted positions \<open>1 .. BOID_NEIGHBORHOOD_SIZE\<close> are copied out.
  The subject is passed by value: the function does not know its index.
\<close>

definition boid_behavior_find_neighbors :: "qsort \<Rightarrow> boid list \<Rightarrow> boid \<Rightarrow> boid_neighbor list" where
  "boid_behavior_find_neighbors qs previous subject_boid =
     (let neighbors = replicate BOID_NEIGHBORHOOD_SIZE \<lparr>distance = Fin 0, index = 0\<rparr>;
          all_possible_neighbors =
            map (\<lambda>i. \<lparr>distance = boid_physics_distance_of_boids subject_boid (previous ! i),
                       index = i\<rparr>) [0..<BOID_COUNT];
          all_possible_neighbors = sort_all_neighbors qs all_possible_neighbors
      in fold (\<lambda>i neighbors. neighbors[i := all_possible_neighbors ! (i + 1)])
              [0..<BOID_NEIGHBORHOOD_SIZE] neighbors)"

definition boid_behavior_environment_trigger :: "boid \<Rightarrow> bool" where
  "boid_behavior_environment_trigger subject_boid =
     flt (boid_physics_min_distance_to_environment subject_boid)
         (Fin BOID_TRIGGER_ENVIRONMENT)"

text \<open>
  The loop that each of the four steering functions runs before it normalizes the
  direction: \<open>direction[i] += target[i] * strength\<close> for the components 0, 1, 2.
\<close>

definition steer :: "vector_3d \<Rightarrow> vector_3d \<Rightarrow> glfloat \<Rightarrow> vector_3d" where
  "steer dir target strength =
     (case dir of (d0, d1, d2) \<Rightarrow>
      case target of (t0, t1, t2) \<Rightarrow>
        (fadd d0 (fmul t0 strength), fadd d1 (fmul t1 strength), fadd d2 (fmul t2 strength)))"

definition boid_behavior_handle_environment :: "boid \<Rightarrow> boid" where
  "boid_behavior_handle_environment subject_boid =
     (let repulsion_direction =
            boid_physics_target_direction_environment subject_boid (Fin 0, Fin 0, Fin 0)
      in subject_boid\<lparr>direction :=
           geometry_normalize_vector
             (steer (direction subject_boid) repulsion_direction
                (Fin BOID_STRENGTH_ENVIRONMENT))\<rparr>)"

definition handle_neighbors_align :: "boid list \<Rightarrow> boid \<Rightarrow> boid_neighbor list \<Rightarrow> boid" where
  "handle_neighbors_align previous subject_boid neighbors =
     (let alignment_direction =
            boid_physics_target_direction_neighbor_alignment previous subject_boid neighbors
      in subject_boid\<lparr>direction :=
           geometry_normalize_vector
             (steer (direction subject_boid) alignment_direction
                (Fin BOID_STRENGTH_ALIGNMENT))\<rparr>)"

definition handle_neighbors_separate :: "boid list \<Rightarrow> boid \<Rightarrow> boid_neighbor \<Rightarrow> boid" where
  "handle_neighbors_separate previous subject_boid closest_neighbor =
     (let neighbor = previous ! index closest_neighbor;
          distance = boid_physics_distance_of_boids subject_boid neighbor
      in if flt distance (Fin BOID_TRIGGER_SEPARATE)
         then
           (case position subject_boid of (p0, p1, p2) \<Rightarrow>
            case position neighbor of (n0, n1, n2) \<Rightarrow>
              let separation_vector =
                    geometry_normalize_vector (fsub p0 n0, fsub p1 n1, fsub p2 n2);
                  repulsion_strength =
                    fmul (fdiv (Fin 1) (fadd (fmul distance distance) (Fin (1 / 1000000))))
                         (Fin BOID_STRENGTH_SEPARATE)
              in subject_boid\<lparr>direction :=
                   geometry_normalize_vector
                     (steer (direction subject_boid) separation_vector repulsion_strength)\<rparr>)
         else subject_boid)"

definition handle_neighbors_cohere :: "boid list \<Rightarrow> boid \<Rightarrow> boid_neighbor list \<Rightarrow> boid" where
  "handle_neighbors_cohere previous subject_boid neighbors =
     (let cohesion_direction =
            boid_physics_target_direction_neighbor_cohesion previous subject_boid neighbors
      in subject_boid\<lparr>direction :=
           geometry_normalize_vector
             (steer (direction subject_boid) cohesion_direction
                (Fin BOID_STRENGTH_COHESION))\<rparr>)"

definition boid_behavior_handle_neighbors :: "qsort \<Rightarrow> boid list \<Rightarrow> boid \<Rightarrow> boid" where
  "boid_behavior_handle_neighbors qs previous subject_boid =
     (let neighbors = boid_behavior_find_neighbors qs previous subject_boid;
          subject_boid = handle_neighbors_align previous subject_boid neighbors;
          subject_boid = handle_neighbors_separate previous subject_boid (neighbors ! 0);
          subject_boid = handle_neighbors_cohere previous subject_boid neighbors
      in subject_boid)"

section \<open>boids.c\<close>

text \<open>
  The two global arrays, each of \<open>BOID_COUNT\<close> boids in the program (the lists of
  the model have that length wherever a property depends on it). The functions of
  \<open>boid_behavior.c\<close> and \<open>boid_physics.c\<close> above read
  \<open>array_boids_previous\<close> only, so they take that array alone.
\<close>

record flock =
  array_boids_current :: "boid list"
  array_boids_previous :: "boid list"

text \<open>The body of the loop of \<open>update_boids_current\<close>, for the boid of one slot.\<close>

definition update_boid :: "qsort \<Rightarrow> boid list \<Rightarrow> boid \<Rightarrow> boid" where
  "update_boid qs previous b =
     (let b = (if boid_behavior_environment_trigger b
               then boid_behavior_handle_environment b
               else boid_behavior_handle_neighbors qs previous b)
      in boid_physics_update_position b)"

definition update_boids_current :: "qsort \<Rightarrow> flock \<Rightarrow> flock" where
  "update_boids_current qs s =
     fold (\<lambda>i s. s\<lparr>array_boids_current :=
                     (array_boids_current s)
                       [i := update_boid qs (array_boids_previous s)
                               (array_boids_current s ! i)]\<rparr>)
          [0..<BOID_COUNT] s"

definition update_boids_previous :: "flock \<Rightarrow> flock" where
  "update_boids_previous s =
     fold (\<lambda>i s. s\<lparr>array_boids_previous :=
                     (array_boids_previous s)[i := array_boids_current s ! i]\<rparr>)
          [0..<BOID_COUNT] s"

definition boids_update :: "qsort \<Rightarrow> flock \<Rightarrow> flock" where
  "boids_update qs s = update_boids_previous (update_boids_current qs s)"

text \<open>
  \<open>rand\<close> is the C library's: \<open>rnd k\<close> is what its \<open>k\<close>-th call returns, a number
  from 0 to \<open>RAND_MAX\<close> (the parameter \<open>rand_max\<close>), and the state is the number of
  calls made. \<open>boids_initialize\<close> calls it six times for each boid, one call in each
  assignment, in the order of the source.
\<close>

definition initial_boid :: "(nat \<Rightarrow> nat) \<Rightarrow> nat \<Rightarrow> nat \<Rightarrow> boid \<Rightarrow> boid" where
  "initial_boid rnd rand_max k b =
     (let p0 = fsub (fmul (fdiv (Fin (real (rnd k))) (Fin (real rand_max))) (Fin 8)) (Fin 4);
          p1 = fadd (Fin (real (rnd (k + 1) mod 8))) (Fin 1);
          p2 = fsub (fmul (fdiv (Fin (real (rnd (k + 2)))) (Fin (real rand_max))) (Fin 8)) (Fin 4);
          d0 = fdiv (Fin (real (rnd (k + 3)))) (Fin (real rand_max));
          d1 = fdiv (Fin (real (rnd (k + 4)))) (Fin (real rand_max));
          d2 = fdiv (Fin (real (rnd (k + 5)))) (Fin (real rand_max))
      in b\<lparr>position := (p0, p1, p2),
            direction := geometry_normalize_vector (d0, d1, d2)\<rparr>)"

definition boids_initialize :: "(nat \<Rightarrow> nat) \<Rightarrow> nat \<Rightarrow> flock \<Rightarrow> flock" where
  "boids_initialize rnd rand_max s =
     fold (\<lambda>i s. s\<lparr>array_boids_current :=
                     (array_boids_current s)
                       [i := initial_boid rnd rand_max (6 * i) (array_boids_current s ! i)]\<rparr>)
          [0..<BOID_COUNT] s"

section \<open>Predicates and inputs of the properties\<close>

text \<open>A vector of three numbers whose squares sum to 1; a vector with a \<open>NaN\<close> is not one.\<close>

definition is_unit :: "vector_3d \<Rightarrow> bool" where
  "is_unit v = (case v of (Fin x, Fin y, Fin z) \<Rightarrow> x * x + y * y + z * z = 1 | _ \<Rightarrow> False)"

text \<open>A boid at the centre of the enclosure, at height 0, heading along z.\<close>

definition center_boid :: boid where
  "center_boid = \<lparr>position = (Fin 0, Fin 0, Fin 0), direction = (Fin 0, Fin 0, Fin 1)\<rparr>"

text \<open>A vector of three numbers none of which is negative.\<close>

definition in_nonneg_octant :: "vector_3d \<Rightarrow> bool" where
  "in_nonneg_octant v =
     (case v of (Fin x, Fin y, Fin z) \<Rightarrow> 0 \<le> x \<and> 0 \<le> y \<and> 0 \<le> z | _ \<Rightarrow> False)"

text \<open>
  A flock whose boids all head along z, in a row at height 4, a tenth of a unit apart and
  far from every boundary; the previous buffer holds the same boids.
\<close>

definition aligned_boid :: "nat \<Rightarrow> boid" where
  "aligned_boid i =
     \<lparr>position = (Fin (real i / 10), Fin 4, Fin 0), direction = (Fin 0, Fin 0, Fin 1)\<rparr>"

definition aligned_flock :: flock where
  "aligned_flock =
     \<lparr>array_boids_current = map aligned_boid [0..<BOID_COUNT],
      array_boids_previous = map aligned_boid [0..<BOID_COUNT]\<rparr>"


text \<open>
  A boid of \<open>array_boids_previous\<close> before the first publish: the array is a global
  with no initializer, so all its numbers are 0, and \<open>boids_initialize\<close> fills
  \<open>array_boids_current\<close> only.
\<close>

definition zero_boid :: boid where
  "zero_boid = \<lparr>position = (Fin 0, Fin 0, Fin 0), direction = (Fin 0, Fin 0, Fin 0)\<rparr>"


text \<open>The row of boids, with the boid of slot 1 moved onto the boid of slot 0.\<close>

definition coincident_previous :: "boid list" where
  "coincident_previous = (map aligned_boid [0..<BOID_COUNT])[1 := aligned_boid 0]"

section \<open>Properties\<close>

subsection \<open>The distance of two boids\<close>

lemma fsub_swap_square: "fmul (fsub a b) (fsub a b) = fmul (fsub b a) (fsub b a)"
  by (cases a; cases b) (simp_all add: algebra_simps)

text \<open>
  C8. The distance of two boids is symmetric: for all boids \<open>a\<close> and \<open>b\<close>
  (also with \<open>NaN\<close> coordinates), \<open>boid_physics_distance_of_boids a b\<close> equals
  \<open>boid_physics_distance_of_boids b a\<close>.
\<close>

theorem boid_physics_distance_of_boids_symmetric:
  "boid_physics_distance_of_boids a b = boid_physics_distance_of_boids b a"
proof -
  obtain x1 y1 z1 where pa: "position a = (x1, y1, z1)"
    by (cases "position a") auto
  obtain x2 y2 z2 where pb: "position b = (x2, y2, z2)"
    by (cases "position b") auto
  have "fmul (fsub x2 x1) (fsub x2 x1) = fmul (fsub x1 x2) (fsub x1 x2)"
    and "fmul (fsub y2 y1) (fsub y2 y1) = fmul (fsub y1 y2) (fsub y1 y2)"
    and "fmul (fsub z1 z2) (fsub z1 z2) = fmul (fsub z2 z1) (fsub z2 z1)"
    by (rule fsub_swap_square)+
  then show ?thesis
    by (simp add: boid_physics_distance_of_boids_def pa pb Let_def)
qed

subsection \<open>Normalization\<close>

declare geometry_normalize_vector.simps [simp del]

lemma sum_squares_zero_iff: "(x::real) * x + y * y + z * z = 0 \<longleftrightarrow> x = 0 \<and> y = 0 \<and> z = 0"
  by (metis add_nonneg_eq_0_iff mult_eq_0_iff zero_le_square add_nonneg_nonneg)

lemma sum_squares_nonneg: "\<not> (x::real) * x + y * y + z * z < 0"
  by (simp add: not_less)

lemma normalize_fin:
  "geometry_normalize_vector (Fin x, Fin y, Fin z) =
     (if x = 0 \<and> y = 0 \<and> z = 0 then (NaN, NaN, NaN)
      else (Fin (x / sqrt (x * x + y * y + z * z)), Fin (y / sqrt (x * x + y * y + z * z)),
            Fin (z / sqrt (x * x + y * y + z * z))))"
  using sum_squares_zero_iff [of x y z]
  by (simp add: geometry_normalize_vector.simps sum_squares_nonneg Let_def)

lemma normalize_fin_unit:
  assumes "\<not> (x = 0 \<and> y = 0 \<and> z = 0)"
  shows "is_unit (geometry_normalize_vector (Fin x, Fin y, Fin z))"
proof -
  define s where "s = x * x + y * y + z * z"
  have pos: "0 < s"
    using assms sum_squares_zero_iff [of x y z] sum_squares_nonneg [of x y z]
    unfolding s_def by linarith
  have sq: "sqrt s * sqrt s = s" using pos by simp
  have "x / sqrt s * (x / sqrt s) + y / sqrt s * (y / sqrt s) + z / sqrt s * (z / sqrt s)
        = (x * x + y * y + z * z) / (sqrt s * sqrt s)"
    by (simp add: add_divide_distrib)
  also have "\<dots> = 1" using pos sq by (simp add: s_def)
  finally show ?thesis
    using assms by (simp add: normalize_fin is_unit_def s_def)
qed

lemma normalize_nan:
  "v0 = NaN \<or> v1 = NaN \<or> v2 = NaN \<Longrightarrow> geometry_normalize_vector (v0, v1, v2) = (NaN, NaN, NaN)"
  by (cases v0; cases v1; cases v2) (auto simp: geometry_normalize_vector.simps Let_def)




subsection \<open>The distance to the boundary\<close>

text \<open>
  C7, as the claim states it, fails: for the boid at the centre of the enclosure at height 0
  the minimum distance is not the wall radius, and the environment trigger is not false.
\<close>

theorem center_boid_not_wall_radius:
  "\<not> (boid_physics_min_distance_to_environment center_boid = Fin ENVIRONMENT_RADIUS_XZ \<and>
      \<not> boid_behavior_environment_trigger center_boid)"
  by (simp add: boid_behavior_environment_trigger_def boid_physics_min_distance_to_environment_def
      distance_to_wall_def distance_to_floor_def distance_to_ceiling_def center_boid_def
      boid_constants Let_def)

text \<open>
  C7, amended: for the boid at the centre of the enclosure at height 0 with direction
  (0, 0, 1), the distance to the wall is the wall radius 10 and the distance to the ceiling
  is 10, but the floor lies at height -1, so the distance to the floor is 1:
  \<open>boid_physics_min_distance_to_environment\<close> returns 1, and
  \<open>boid_behavior_environment_trigger\<close> is true, since 1 is below
  \<open>BOID_TRIGGER_ENVIRONMENT\<close> = 2.
\<close>

theorem center_boid_floor_distance:
  "distance_to_wall center_boid = Fin ENVIRONMENT_RADIUS_XZ \<and>
   distance_to_floor center_boid = Fin 1 \<and>
   distance_to_ceiling center_boid = Fin ENVIRONMENT_HEIGHT \<and>
   boid_physics_min_distance_to_environment center_boid = Fin 1 \<and>
   boid_behavior_environment_trigger center_boid"
  by (simp add: boid_behavior_environment_trigger_def boid_physics_min_distance_to_environment_def
      distance_to_wall_def distance_to_floor_def distance_to_ceiling_def center_boid_def
      boid_constants Let_def)

subsection \<open>The loops over the slots\<close>

lemma fold_current_upto:
  "n \<le> length (array_boids_current s) \<Longrightarrow>
   fold (\<lambda>i s. s\<lparr>array_boids_current :=
                   (array_boids_current s)
                     [i := f i (array_boids_previous s) (array_boids_current s ! i)]\<rparr>)
        [0..<n] s =
   s\<lparr>array_boids_current :=
       map (\<lambda>i. f i (array_boids_previous s) (array_boids_current s ! i)) [0..<n] @
       drop n (array_boids_current s)\<rparr>"
proof (induction n)
  case 0
  then show ?case by simp
next
  case (Suc n)
  then have n: "n < length (array_boids_current s)" by simp
  let ?g = "\<lambda>i. f i (array_boids_previous s) (array_boids_current s ! i)"
  have len: "length (map ?g [0..<n]) = n" by simp
  have nth: "(map ?g [0..<n] @ drop n (array_boids_current s)) ! n = array_boids_current s ! n"
    using n by (simp add: nth_append)
  have upd: "(map ?g [0..<n] @ drop n (array_boids_current s))[n := v] =
             map ?g [0..<n] @ v # drop (Suc n) (array_boids_current s)" for v
  proof -
    have "(map ?g [0..<n] @ drop n (array_boids_current s))[n := v] =
          map ?g [0..<n] @ (drop n (array_boids_current s))[0 := v]"
      using len by (simp add: list_update_append)
    moreover have "drop n (array_boids_current s) =
                   array_boids_current s ! n # drop (Suc n) (array_boids_current s)"
      using n by (simp add: Cons_nth_drop_Suc)
    ultimately show ?thesis by simp
  qed
  show ?case
    using Suc.IH n by (simp add: nth upd)
qed

lemma update_boids_current_map:
  assumes "length (array_boids_current s) = BOID_COUNT"
  shows "update_boids_current qs s =
         s\<lparr>array_boids_current :=
             map (update_boid qs (array_boids_previous s)) (array_boids_current s)\<rparr>"
proof -
  have "map (\<lambda>i. update_boid qs (array_boids_previous s) (array_boids_current s ! i))
            [0..<BOID_COUNT]
        = map (update_boid qs (array_boids_previous s)) (array_boids_current s)"
    using assms by (intro nth_equalityI) simp_all
  then show ?thesis
    using fold_current_upto [of BOID_COUNT s "\<lambda>i. update_boid qs"] assms
    by (simp add: update_boids_current_def)
qed

lemma boids_initialize_nth:
  assumes "length (array_boids_current s) = BOID_COUNT" and "i < BOID_COUNT"
  shows "array_boids_current (boids_initialize rnd rand_max s) ! i =
         initial_boid rnd rand_max (6 * i) (array_boids_current s ! i)"
  using fold_current_upto [of BOID_COUNT s "\<lambda>i prev. initial_boid rnd rand_max (6 * i)"] assms
  by (simp add: boids_initialize_def)

lemma update_boids_previous_upto:
  "n \<le> length (array_boids_current s) \<Longrightarrow> n \<le> length (array_boids_previous s) \<Longrightarrow>
   fold (\<lambda>i s. s\<lparr>array_boids_previous :=
                   (array_boids_previous s)[i := array_boids_current s ! i]\<rparr>)
        [0..<n] s =
   s\<lparr>array_boids_previous :=
       take n (array_boids_current s) @ drop n (array_boids_previous s)\<rparr>"
proof (induction n)
  case 0
  then show ?case by simp
next
  case (Suc n)
  then have n: "n < length (array_boids_current s)" "n < length (array_boids_previous s)"
    by simp_all
  have "(take n (array_boids_current s) @ drop n (array_boids_previous s))
          [n := array_boids_current s ! n]
        = take (Suc n) (array_boids_current s) @ drop (Suc n) (array_boids_previous s)"
    using n by (simp add: list_update_append take_Suc_conv_app_nth upd_conv_take_nth_drop)
  then show ?case
    using Suc.IH n by simp
qed

lemma update_boids_previous_keeps_current:
  "array_boids_current
     (fold (\<lambda>i s. s\<lparr>array_boids_previous :=
                     (array_boids_previous s)[i := array_boids_current s ! i]\<rparr>) ns s)
   = array_boids_current s"
  by (induction ns arbitrary: s) simp_all

text \<open>
  C9. For two buffers of \<open>BOID_COUNT\<close> boids each, after \<open>update_boids_previous\<close>
  the previous buffer is, element for element, the current buffer as it was before the
  call, and the current buffer is as it was.
\<close>

theorem update_boids_previous_publishes:
  assumes "length (array_boids_current s) = BOID_COUNT"
      and "length (array_boids_previous s) = BOID_COUNT"
  shows "array_boids_previous (update_boids_previous s) = array_boids_current s \<and>
         array_boids_current (update_boids_previous s) = array_boids_current s"
  using update_boids_previous_upto [of BOID_COUNT s] assms
  by (simp add: update_boids_previous_def)

theorem update_boids_previous_publishes_witness:
  "array_boids_previous
     (update_boids_previous
        \<lparr>array_boids_current = map aligned_boid [0..<BOID_COUNT],
         array_boids_previous = replicate BOID_COUNT center_boid\<rparr>)
     = map aligned_boid [0..<BOID_COUNT] \<and>
   array_boids_current
     (update_boids_previous
        \<lparr>array_boids_current = map aligned_boid [0..<BOID_COUNT],
         array_boids_previous = replicate BOID_COUNT center_boid\<rparr>)
     = map aligned_boid [0..<BOID_COUNT]"
  using update_boids_previous_publishes
    [of "\<lparr>array_boids_current = map aligned_boid [0..<BOID_COUNT],
          array_boids_previous = replicate BOID_COUNT center_boid\<rparr>"]
  by simp

text \<open>
  C2. The boid that \<open>update_boids_current\<close> leaves in slot \<open>i\<close> is
  \<open>update_boid\<close> of the previous buffer and of the boid that was in slot \<open>i\<close>
  (and of the sort of the C library): a function of these alone. So two flocks with the
  same previous buffer and the same boid in slot \<open>i\<close> get the same boid in slot
  \<open>i\<close>, whatever their other current slots hold; and the pass leaves the previous
  buffer as it was.
\<close>

theorem update_boids_current_slot_independent:
  assumes "length (array_boids_current s) = BOID_COUNT"
      and "length (array_boids_current s') = BOID_COUNT"
      and "array_boids_previous s' = array_boids_previous s"
      and "i < BOID_COUNT"
      and "array_boids_current s' ! i = array_boids_current s ! i"
  shows "array_boids_current (update_boids_current qs s') ! i =
           array_boids_current (update_boids_current qs s) ! i \<and>
         array_boids_current (update_boids_current qs s) ! i =
           update_boid qs (array_boids_previous s) (array_boids_current s ! i) \<and>
         array_boids_previous (update_boids_current qs s) = array_boids_previous s"
  using assms by (simp add: update_boids_current_map)

theorem update_boids_current_slot_independent_witness:
  "array_boids_current
     (update_boids_current qsort_stable
        (aligned_flock\<lparr>array_boids_current :=
           (array_boids_current aligned_flock)[5 := center_boid]\<rparr>)) ! 0 =
   array_boids_current (update_boids_current qsort_stable aligned_flock) ! 0"
  using update_boids_current_slot_independent [of aligned_flock
      "aligned_flock\<lparr>array_boids_current :=
         (array_boids_current aligned_flock)[5 := center_boid]\<rparr>"
      0 qsort_stable]
  by (simp add: aligned_flock_def BOID_COUNT_def)

subsection \<open>The direction after an update pass\<close>

lemma direction_update_position [simp]:
  "direction (boid_physics_update_position b) = direction b"
  by (simp add: boid_physics_update_position_def split: prod.splits)

lemma boids_update_current:
  assumes "length (array_boids_current s) = BOID_COUNT"
  shows "array_boids_current (boids_update qs s) =
         map (update_boid qs (array_boids_previous s)) (array_boids_current s)"
  using assms
  by (simp add: boids_update_def update_boids_previous_def update_boids_previous_keeps_current
      update_boids_current_map)

lemma steer_nan_dir [simp]: "steer (NaN, NaN, NaN) t s = (NaN, NaN, NaN)"
  by (simp add: steer_def split: prod.splits)

lemma steer_nan_target [simp]: "steer d (NaN, NaN, NaN) s = (NaN, NaN, NaN)"
  by (cases d) (simp add: steer_def split: prod.splits)

lemma normalize_nan_vector [simp]: "geometry_normalize_vector (NaN, NaN, NaN) = (NaN, NaN, NaN)"
  by (simp add: normalize_nan)

lemma separate_keeps_nan:
  "direction b = (NaN, NaN, NaN) \<Longrightarrow>
   direction (handle_neighbors_separate previous b c) = (NaN, NaN, NaN)"
  by (simp add: handle_neighbors_separate_def Let_def split: prod.splits)

lemma cohere_keeps_nan:
  "direction b = (NaN, NaN, NaN) \<Longrightarrow>
   direction (handle_neighbors_cohere previous b ns) = (NaN, NaN, NaN)"
  by (simp add: handle_neighbors_cohere_def Let_def)

lemma upt_6: "[0..<6] = [0, 1, 2, 3, 4, 5]"
  by (simp add: upt_rec)

lemma alignment_nan:
  assumes "direction b = (Fin dx, Fin dy, Fin dz)"
      and "\<And>i. i < 6 \<Longrightarrow> direction (previous ! index (ns ! i)) = (Fin dx, Fin dy, Fin dz)"
  shows "boid_physics_target_direction_neighbor_alignment previous b ns = (NaN, NaN, NaN)"
  using assms(1) assms(2) [of 0] assms(2) [of 1] assms(2) [of 2] assms(2) [of 3]
    assms(2) [of 4] assms(2) [of 5]
  by (simp add: boid_physics_target_direction_neighbor_alignment_def BOID_NEIGHBORHOOD_SIZE_def
      upt_6 Let_def normalize_fin)

lemma align_nan:
  assumes "direction b = (Fin dx, Fin dy, Fin dz)"
      and "\<And>i. i < 6 \<Longrightarrow> direction (previous ! index (ns ! i)) = (Fin dx, Fin dy, Fin dz)"
  shows "direction (handle_neighbors_align previous b ns) = (NaN, NaN, NaN)"
  using alignment_nan [OF assms] by (simp add: handle_neighbors_align_def)


lemma mset_insert_before: "mset (insert_before cmp x ys) = add_mset x (mset ys)"
  by (induction ys) simp_all

lemma mset_qsort_stable: "mset (qsort_stable cmp xs) = mset xs"
  by (induction xs) (simp_all add: qsort_stable_def mset_insert_before)

lemma find_neighbors_eq:
  "boid_behavior_find_neighbors qs previous b =
     map (\<lambda>i. sort_all_neighbors qs
                 (map (\<lambda>i. \<lparr>distance = boid_physics_distance_of_boids b (previous ! i),
                             index = i\<rparr>) [0..<BOID_COUNT]) ! (i + 1))
         [0..<BOID_NEIGHBORHOOD_SIZE]"
  by (simp add: boid_behavior_find_neighbors_def BOID_NEIGHBORHOOD_SIZE_def upt_6 Let_def
      eval_nat_numeral)

lemma find_neighbors_length:
  "length (boid_behavior_find_neighbors qs previous b) = BOID_NEIGHBORHOOD_SIZE"
  by (simp add: find_neighbors_eq)

lemma find_neighbors_index_in_range:
  assumes "mset (qs compare_neighbor_boids
                  (map (\<lambda>i. \<lparr>distance = boid_physics_distance_of_boids b (previous ! i),
                              index = i\<rparr>) [0..<BOID_COUNT])) =
           mset (map (\<lambda>i. \<lparr>distance = boid_physics_distance_of_boids b (previous ! i),
                              index = i\<rparr>) [0..<BOID_COUNT])"
      and "i < BOID_NEIGHBORHOOD_SIZE"
  shows "index (boid_behavior_find_neighbors qs previous b ! i) < BOID_COUNT"
proof -
  let ?all = "map (\<lambda>i. \<lparr>distance = boid_physics_distance_of_boids b (previous ! i),
                          index = i\<rparr>) [0..<BOID_COUNT]"
  let ?sorted = "sort_all_neighbors qs ?all"
  have m: "mset ?sorted = mset ?all"
    using assms(1) by (simp add: sort_all_neighbors_def)
  then have "length ?sorted = BOID_COUNT"
    using mset_eq_length by fastforce
  then have "?sorted ! (i + 1) \<in> set ?sorted"
    using assms(2) by (simp add: BOID_COUNT_def BOID_NEIGHBORHOOD_SIZE_def)
  then have "?sorted ! (i + 1) \<in> set ?all"
    using m mset_eq_setD by blast
  then have "index (?sorted ! (i + 1)) < BOID_COUNT" by auto
  then show ?thesis
    using assms(2) by (simp add: find_neighbors_eq)
qed

lemma aligned_boid_no_trigger:
  assumes "i < BOID_COUNT"
  shows "\<not> boid_behavior_environment_trigger (aligned_boid i)"
proof -
  have "sqrt (real i / 10 * (real i / 10)) = real i / 10"
    by (rule trans [OF real_sqrt_abs2]) simp
  moreover have "real i < 40" using assms by (simp add: BOID_COUNT_def)
  ultimately show ?thesis
    by (simp add: boid_behavior_environment_trigger_def
        boid_physics_min_distance_to_environment_def distance_to_wall_def distance_to_floor_def
        distance_to_ceiling_def aligned_boid_def boid_constants Let_def)
qed

lemma aligned_update_boid_nan:
  assumes "i < BOID_COUNT"
  shows "direction (update_boid qsort_stable (map aligned_boid [0..<BOID_COUNT]) (aligned_boid i))
         = (NaN, NaN, NaN)"
proof -
  let ?prev = "map aligned_boid [0..<BOID_COUNT]"
  let ?ns = "boid_behavior_find_neighbors qsort_stable ?prev (aligned_boid i)"
  have "direction (?prev ! index (?ns ! k)) = (Fin 0, Fin 0, Fin 1)" if "k < 6" for k
  proof -
    have "index (?ns ! k) < BOID_COUNT"
      using that by (intro find_neighbors_index_in_range)
        (simp_all add: mset_qsort_stable BOID_NEIGHBORHOOD_SIZE_def)
    then show ?thesis by (simp add: aligned_boid_def)
  qed
  then have "direction (handle_neighbors_align ?prev (aligned_boid i) ?ns) = (NaN, NaN, NaN)"
    by (intro align_nan [where dx = 0 and dy = 0 and dz = 1]) (simp_all add: aligned_boid_def)
  then have "direction (boid_behavior_handle_neighbors qsort_stable ?prev (aligned_boid i))
             = (NaN, NaN, NaN)"
    by (simp add: boid_behavior_handle_neighbors_def Let_def separate_keeps_nan cohere_keeps_nan)
  then show ?thesis
    using aligned_boid_no_trigger [OF assms] by (simp add: update_boid_def Let_def)
qed

text \<open>
  C1, on the code: the directions are not of magnitude 1 after every update pass. In the
  flock whose boids all head along z (far from every boundary, the previous buffer equal to
  the current one), the average direction of any six neighbours is the boid's own
  direction, the alignment target is the zero vector, and its normalization is 0 / 0. After
  the update pass the direction of every agent is \<open>NaN\<close> in its three components, not
  a vector of magnitude 1.
\<close>

theorem aligned_flock_direction_nan:
  "map direction (array_boids_current (boids_update qsort_stable aligned_flock)) =
     replicate BOID_COUNT (NaN, NaN, NaN) \<and>
   \<not> is_unit (direction (array_boids_current (boids_update qsort_stable aligned_flock) ! 0))"
proof -
  have "array_boids_current (boids_update qsort_stable aligned_flock) =
        map (update_boid qsort_stable (map aligned_boid [0..<BOID_COUNT]))
            (map aligned_boid [0..<BOID_COUNT])"
    by (simp add: boids_update_current aligned_flock_def)
  then have eq: "map direction (array_boids_current (boids_update qsort_stable aligned_flock)) =
        replicate BOID_COUNT (NaN, NaN, NaN)"
    by (intro nth_equalityI) (simp_all add: aligned_update_boid_nan)
  have "0 < length (array_boids_current (boids_update qsort_stable aligned_flock))"
    by (simp add: boids_update_current aligned_flock_def BOID_COUNT_def)
  then have "direction (array_boids_current (boids_update qsort_stable aligned_flock) ! 0)
        = map direction (array_boids_current (boids_update qsort_stable aligned_flock)) ! 0"
    by (simp only: nth_map)
  then have "direction (array_boids_current (boids_update qsort_stable aligned_flock) ! 0)
        = (NaN, NaN, NaN)"
    by (simp add: eq BOID_COUNT_def)
  then show ?thesis using eq by (simp add: is_unit_def)
qed

subsection \<open>The initial directions\<close>

lemma normalize_fin_octant:
  assumes "0 \<le> x" "0 \<le> y" "0 \<le> z" "\<not> (x = 0 \<and> y = 0 \<and> z = 0)"
  shows "in_nonneg_octant (geometry_normalize_vector (Fin x, Fin y, Fin z))"
  using assms by (simp add: normalize_fin in_nonneg_octant_def)

lemma initial_boid_direction:
  assumes "0 < rand_max"
  shows "direction (initial_boid rnd rand_max k b) =
         geometry_normalize_vector
           (Fin (real (rnd (k + 3)) / real rand_max),
            Fin (real (rnd (k + 4)) / real rand_max),
            Fin (real (rnd (k + 5)) / real rand_max))"
  using assms by (simp add: initial_boid_def Let_def)

text \<open>
  C10. Let \<open>rand\<close> return numbers from 0 to \<open>RAND_MAX\<close> > 0. For every agent,
  \<open>boids_initialize\<close> sets the direction to the normalization of three components
  \<open>rand() / RAND_MAX\<close>, each between 0 and 1; so the direction is a vector of
  magnitude 1 with no negative component (initial headings fill one octant only), unless
  the three draws were all 0, when the normalization is 0 / 0 and the direction is
  \<open>NaN\<close>.
\<close>

theorem boids_initialize_direction_octant:
  assumes "0 < rand_max" and "\<forall>k. rnd k \<le> rand_max"
      and "length (array_boids_current s) = BOID_COUNT" and "i < BOID_COUNT"
  shows "direction (array_boids_current (boids_initialize rnd rand_max s) ! i) =
           geometry_normalize_vector
             (Fin (real (rnd (6 * i + 3)) / real rand_max),
              Fin (real (rnd (6 * i + 4)) / real rand_max),
              Fin (real (rnd (6 * i + 5)) / real rand_max)) \<and>
         0 \<le> real (rnd (6 * i + 3)) / real rand_max \<and> real (rnd (6 * i + 3)) / real rand_max \<le> 1 \<and>
         0 \<le> real (rnd (6 * i + 4)) / real rand_max \<and> real (rnd (6 * i + 4)) / real rand_max \<le> 1 \<and>
         0 \<le> real (rnd (6 * i + 5)) / real rand_max \<and> real (rnd (6 * i + 5)) / real rand_max \<le> 1 \<and>
         (if rnd (6 * i + 3) = 0 \<and> rnd (6 * i + 4) = 0 \<and> rnd (6 * i + 5) = 0
          then direction (array_boids_current (boids_initialize rnd rand_max s) ! i) = (NaN, NaN, NaN)
          else is_unit (direction (array_boids_current (boids_initialize rnd rand_max s) ! i)) \<and>
               in_nonneg_octant (direction (array_boids_current (boids_initialize rnd rand_max s) ! i)))"
proof -
  let ?a = "real (rnd (6 * i + 3)) / real rand_max"
  let ?b = "real (rnd (6 * i + 4)) / real rand_max"
  let ?c = "real (rnd (6 * i + 5)) / real rand_max"
  have d: "direction (array_boids_current (boids_initialize rnd rand_max s) ! i) =
           geometry_normalize_vector (Fin ?a, Fin ?b, Fin ?c)"
    using assms by (simp add: boids_initialize_nth initial_boid_direction)
  have le: "?a \<le> 1" "?b \<le> 1" "?c \<le> 1"
    using assms(1,2) by simp_all
  have ge: "0 \<le> ?a" "0 \<le> ?b" "0 \<le> ?c" by simp_all
  have z: "?a = 0 \<longleftrightarrow> rnd (6 * i + 3) = 0" "?b = 0 \<longleftrightarrow> rnd (6 * i + 4) = 0"
    "?c = 0 \<longleftrightarrow> rnd (6 * i + 5) = 0"
    using assms(1) by simp_all
  show ?thesis
  proof (cases "rnd (6 * i + 3) = 0 \<and> rnd (6 * i + 4) = 0 \<and> rnd (6 * i + 5) = 0")
    case True
    then show ?thesis using d le ge by (simp add: normalize_fin)
  next
    case False
    then have nz: "\<not> (?a = 0 \<and> ?b = 0 \<and> ?c = 0)" using z by blast
    have "is_unit (geometry_normalize_vector (Fin ?a, Fin ?b, Fin ?c))"
      using nz by (rule normalize_fin_unit)
    moreover have "in_nonneg_octant (geometry_normalize_vector (Fin ?a, Fin ?b, Fin ?c))"
      using ge nz by (rule normalize_fin_octant)
    ultimately show ?thesis using d le ge False by auto
  qed
qed

theorem boids_initialize_direction_octant_witness:
  "is_unit (direction (array_boids_current
      (boids_initialize (\<lambda>k. k mod 5) 32767 aligned_flock) ! 1)) \<and>
   in_nonneg_octant (direction (array_boids_current
      (boids_initialize (\<lambda>k. k mod 5) 32767 aligned_flock) ! 1)) \<and>
   direction (array_boids_current (boids_initialize (\<lambda>k. 0) 32767 aligned_flock) ! 1) = (NaN, NaN, NaN)"
proof -
  have r: "\<forall>k::nat. k mod 5 \<le> 32767"
  proof
    fix k :: nat
    have "k mod 5 < 5" by simp
    then show "k mod 5 \<le> 32767" by linarith
  qed
  have l: "length (array_boids_current aligned_flock) = BOID_COUNT"
    by (simp add: aligned_flock_def)
  have i: "1 < BOID_COUNT" by (simp add: BOID_COUNT_def)
  show ?thesis
    using boids_initialize_direction_octant [of 32767 "\<lambda>k. k mod 5" aligned_flock 1, OF _ r l i]
      boids_initialize_direction_octant [of 32767 "\<lambda>k. 0" aligned_flock 1, OF _ _ l i]
    by auto
qed

subsection \<open>The neighbour sort\<close>








lemma upt_40: "[0..<40] = [0,1,2,3,4,5,6,7,8,9,10,11,12,13,14,15,16,17,18,19,20,21,22,23,24,25,26,27,28,29,30,31,32,33,34,35,36,37,38,39]"
  by (simp add: upt_rec)

lemma flt_irrefl [simp]: "\<not> flt a a"
  by (cases a) simp_all

lemma fgt_irrefl [simp]: "\<not> fgt a a"
  by (cases a) simp_all

lemma first_frame_neighbors:
  "map index (boid_behavior_find_neighbors qsort_stable (replicate BOID_COUNT zero_boid)
                (aligned_boid 1))
     = [1, 2, 3, 4, 5, 6]"
  by (simp add: find_neighbors_eq sort_all_neighbors_def qsort_stable_def
      BOID_COUNT_def BOID_NEIGHBORHOOD_SIZE_def upt_40 upt_6 compare_neighbor_boids_def)

lemma distance_aligned:
  "boid_physics_distance_of_boids (aligned_boid i) (aligned_boid j) = Fin (\<bar>real j - real i\<bar> / 10)"
proof -
  have "sqrt ((real j / 10 - real i / 10) * (real j / 10 - real i / 10)) = \<bar>real j - real i\<bar> / 10"
    by (simp only: real_sqrt_abs2 diff_divide_distrib [symmetric]) simp
  then show ?thesis
    by (simp add: boid_physics_distance_of_boids_def aligned_boid_def Let_def)
qed

lemma fadd_NaN_right [simp]: "fadd x NaN = NaN" by (cases x) simp_all
lemma fsub_NaN_right [simp]: "fsub x NaN = NaN" by (cases x) simp_all
lemma fmul_NaN_right [simp]: "fmul x NaN = NaN" by (cases x) simp_all
lemma fdiv_NaN_right [simp]: "fdiv x NaN = NaN" by (cases x) simp_all

lemma coincident_neighbors:
  "map index (boid_behavior_find_neighbors qsort_stable coincident_previous (aligned_boid 0))
     = [1, 2, 3, 4, 5, 6]"
  by (simp add: find_neighbors_eq sort_all_neighbors_def qsort_stable_def coincident_previous_def
      BOID_COUNT_def BOID_NEIGHBORHOOD_SIZE_def upt_40 upt_6 compare_neighbor_boids_def
      distance_aligned)







text \<open>
  C4, on the code: \<open>boid_behavior_find_neighbors\<close> always writes
  \<open>BOID_NEIGHBORHOOD_SIZE\<close> records, but it leaves out the record at sorted position
  0, not the record of the subject. With a stable \<open>qsort\<close>: in the first frame (the
  previous buffer all zeros) the neighbours of the agent of slot 1 are the records of the
  indices 1 to 6, its own among them; and when the agents of slots 0 and 1 are at the same
  point, the neighbours of the agent of slot 1 are again the records of the indices 1 to 6.
\<close>

theorem boid_behavior_find_neighbors_keeps_subject:
  "length (boid_behavior_find_neighbors qs previous subject_boid) = BOID_NEIGHBORHOOD_SIZE \<and>
   map index (boid_behavior_find_neighbors qsort_stable (replicate BOID_COUNT zero_boid)
                (aligned_boid 1))
     = [1, 2, 3, 4, 5, 6] \<and>
   coincident_previous ! 1 = aligned_boid 0 \<and>
   map index (boid_behavior_find_neighbors qsort_stable coincident_previous
                (coincident_previous ! 1))
     = [1, 2, 3, 4, 5, 6]"
proof -
  have p: "coincident_previous ! 1 = aligned_boid 0"
    by (simp add: coincident_previous_def BOID_COUNT_def)
  show ?thesis
    unfolding p using first_frame_neighbors coincident_neighbors
    by (simp add: find_neighbors_length)
qed

text \<open>
  C5, on the code: the cohesion weight is \<open>BOID_STRENGTH_COHESION / (dist * dist)\<close>,
  with no epsilon. When the agents of slots 0 and 1 of the previous buffer are at the same
  point, the nearest neighbour of the agent of slot 0 is at distance 0, the weight is a
  division by zero, and the cohesion target is \<open>NaN\<close> in its three components.
\<close>

theorem cohesion_weight_division_by_zero:
  "boid_physics_target_direction_neighbor_cohesion coincident_previous (aligned_boid 0)
     (boid_behavior_find_neighbors qsort_stable coincident_previous (aligned_boid 0))
   = (NaN, NaN, NaN)"
proof -
  have i: "index (boid_behavior_find_neighbors qsort_stable coincident_previous (aligned_boid 0) ! 0) = 1"
    using coincident_neighbors
    by (metis find_neighbors_length BOID_NEIGHBORHOOD_SIZE_def nth_map nth_Cons_0 zero_less_numeral)
  have p: "coincident_previous ! Suc 0 = aligned_boid 0"
    by (simp add: coincident_previous_def BOID_COUNT_def)
  show ?thesis
    by (simp add: boid_physics_target_direction_neighbor_cohesion_def BOID_NEIGHBORHOOD_SIZE_def
        upt_6 Let_def i p distance_aligned split: prod.splits)
qed

end
